theory Spec2Isabelle
  imports Complex_Main "HOL-Library.Sublist" "HOL-Library.AList"
begin

section \<open>Python values used by the provider and the chat application\<close>

text \<open>
  A Python \<open>str\<close> is a sequence of Unicode code points; it is modelled as a list of
  natural numbers, so that \<open>str.strip\<close> can be given its real set of whitespace
  characters.  \<open>py\<close> embeds an ASCII literal of the source.
\<close>

type_synonym pystr = "nat list"

definition py :: "string \<Rightarrow> pystr" where
  "py s = map of_char s"

text \<open>
  The characters \<open>str.strip()\<close> removes when called without argument
  (\<open>str.isspace\<close>): U+0009..U+000D, U+001C..U+001F, U+0020, U+0085, U+00A0, U+1680,
  U+2000..U+200A, U+2028, U+2029, U+202F, U+205F, U+3000.
\<close>

definition is_space :: "nat \<Rightarrow> bool" where
  "is_space c =
     ((9 \<le> c \<and> c \<le> 13) \<or> (28 \<le> c \<and> c \<le> 32) \<or> c = 133 \<or> c = 160 \<or> c = 5760 \<or>
      (8192 \<le> c \<and> c \<le> 8202) \<or> c = 8232 \<or> c = 8233 \<or> c = 8239 \<or> c = 8287 \<or>
      c = 12288)"

definition strip :: "pystr \<Rightarrow> pystr" where
  "strip s = rev (dropWhile is_space (rev (dropWhile is_space s)))"

text \<open>
  Exceptions are values: the class of the exception and the text \<open>str(e)\<close> gives.
  \<open>BackendError\<close> stands for whatever the ollama client raises (connection refused,
  a non-2xx status, an undecodable body).
\<close>

datatype exn_kind =
  ValueError | IndexError | AttributeError | TypeError | KeyError | JSONDecodeError | BackendError

datatype exn = Exn exn_kind pystr

fun exn_str :: "exn \<Rightarrow> pystr" where
  "exn_str (Exn k msg) = msg"

fun exn_class :: "exn \<Rightarrow> exn_kind" where
  "exn_class (Exn k msg) = k"

text \<open>Sequencing of computations that may raise.\<close>

definition and_then :: "exn + 'a \<Rightarrow> ('a \<Rightarrow> exn + 'b) \<Rightarrow> exn + 'b" where
  "and_then r f = (case r of Inl e \<Rightarrow> Inl e | Inr x \<Rightarrow> f x)"

subsection \<open>The string operations of \<open>generate_json\<close>\<close>

text \<open>
  \<open>str.partition\<close>: the text before and after the leftmost occurrence of \<open>sep\<close>,
  \<open>None\<close> when \<open>sep\<close> does not occur.
\<close>

fun partition_py :: "pystr \<Rightarrow> pystr \<Rightarrow> (pystr \<times> pystr) option" where
  "partition_py sep [] = (if sep = [] then Some ([], []) else None)"
| "partition_py sep (c # cs) =
     (if prefix sep (c # cs) then Some ([], drop (length sep) (c # cs))
      else (case partition_py sep cs of
              None \<Rightarrow> None
            | Some (b, a) \<Rightarrow> Some (c # b, a)))"

text \<open>\<open>sub in s\<close> on strings.\<close>

fun py_in :: "pystr \<Rightarrow> pystr \<Rightarrow> bool" where
  "py_in sub [] = (sub = [])"
| "py_in sub (c # cs) = (prefix sub (c # cs) \<or> py_in sub cs)"

lemma partition_py_append:
  "partition_py sep s = Some (b, a) \<Longrightarrow> s = b @ sep @ a"
proof (induction s arbitrary: b)
  case Nil
  then show ?case by (simp split: if_splits)
next
  case (Cons c cs)
  show ?case
  proof (cases "prefix sep (c # cs)")
    case True
    then obtain r where r: "c # cs = sep @ r" by (auto simp: prefix_def)
    from True Cons.prems have "b = []" "a = drop (length sep) (c # cs)" by simp_all
    with r show ?thesis by simp
  next
    case False
    with Cons.prems obtain b' where b': "partition_py sep cs = Some (b', a)" "b = c # b'"
      by (auto split: option.splits)
    from Cons.IH [OF b'(1)] b'(2) show ?thesis by simp
  qed
qed

lemma partition_py_shorter:
  "partition_py sep s = Some (b, a) \<Longrightarrow> sep \<noteq> [] \<Longrightarrow> length a < length s"
  by (drule partition_py_append) simp

text \<open>
  \<open>s.split(sep)\<close> for a non-empty separator: the pieces between the non-overlapping
  occurrences of \<open>sep\<close>, found from the left.  Python raises \<open>ValueError\<close> on an empty
  separator; \<open>py_split\<close> has that branch, so \<open>split_pieces\<close> is never reached with an
  empty separator.
\<close>

function split_pieces :: "pystr \<Rightarrow> pystr \<Rightarrow> pystr list" where
  "split_pieces sep s =
     (if sep = [] then [s]
      else (case partition_py sep s of
              None \<Rightarrow> [s]
            | Some (b, a) \<Rightarrow> b # split_pieces sep a))"
  by pat_completeness auto
termination
  by (relation "measure (\<lambda>(sep, s). length s)") (auto dest: partition_py_shorter)

declare split_pieces.simps [simp del]

definition py_split :: "pystr \<Rightarrow> pystr \<Rightarrow> exn + pystr list" where
  "py_split s sep =
     (if sep = [] then Inl (Exn ValueError (py ''empty separator''))
      else Inr (split_pieces sep s))"

text \<open>\<open>xs[i]\<close> for a non-negative index: \<open>IndexError\<close> out of range.\<close>

definition py_index :: "'a list \<Rightarrow> nat \<Rightarrow> exn + 'a" where
  "py_index xs i =
     (if i < length xs then Inr (xs ! i)
      else Inl (Exn IndexError (py ''list index out of range'')))"

text \<open>
  The extraction step of \<open>generate_json\<close> (the \<open>if\<close>/\<open>elif\<close>/\<open>else\<close> that computes
  \<open>json_text\<close>), with every operation that can raise kept as a branch.
\<close>

definition fence :: pystr where
  "fence = py ''```''"

definition json_marker :: pystr where
  "json_marker = py ''```json''"

definition extract_json :: "pystr \<Rightarrow> exn + pystr" where
  "extract_json response_text =
     (if py_in json_marker response_text then
        and_then (py_split response_text json_marker) (\<lambda>parts.
        and_then (py_index parts 1) (\<lambda>part.
        and_then (py_split part fence) (\<lambda>inner.
        and_then (py_index inner 0) (\<lambda>block. Inr (strip block)))))
      else if py_in fence response_text then
        and_then (py_split response_text fence) (\<lambda>parts.
        and_then (py_index parts 1) (\<lambda>part.
        and_then (py_split part fence) (\<lambda>inner.
        and_then (py_index inner 0) (\<lambda>block. Inr (strip block)))))
      else Inr (strip response_text))"

text \<open>The text before the leftmost occurrence of \<open>sep\<close>, the whole text when there is none.\<close>

definition before_sep :: "pystr \<Rightarrow> pystr \<Rightarrow> pystr" where
  "before_sep sep s = (case partition_py sep s of None \<Rightarrow> s | Some (b, a) \<Rightarrow> b)"

section \<open>The provider (\<open>llm_provider.py\<close>)\<close>

subsection \<open>Values exchanged with the backend\<close>

text \<open>
  What the ollama client returns and what \<open>json.loads\<close> builds: JSON-like Python
  values.  A \<open>dict\<close> is an association list read with \<open>map_of\<close>; a \<open>float\<close> is modelled
  as a real number (the provider only stores, passes on and compares floats; the default
  temperature \<open>0.7\<close> is written \<open>7 / 10\<close>).
\<close>

datatype pyval =
  PNone
| PBool bool
| PInt int
| PFloat real
| PStr pystr
| PList "pyval list"
| PDict "(pystr \<times> pyval) list"

fun type_name :: "pyval \<Rightarrow> pystr" where
  "type_name PNone = py ''NoneType''"
| "type_name (PBool b) = py ''bool''"
| "type_name (PInt i) = py ''int''"
| "type_name (PFloat r) = py ''float''"
| "type_name (PStr s) = py ''str''"
| "type_name (PList xs) = py ''list''"
| "type_name (PDict kvs) = py ''dict''"

text \<open>The \<open>AttributeError\<close> of a method call on a value that has no such method.\<close>

definition no_attribute :: "pyval \<Rightarrow> pystr \<Rightarrow> exn" where
  "no_attribute v name =
     Exn AttributeError
       ([39] @ type_name v @ [39] @ py '' object has no attribute '' @ [39] @ name @ [39])"

text \<open>\<open>v.get(key, default)\<close>.\<close>

definition py_get :: "pyval \<Rightarrow> pystr \<Rightarrow> pyval \<Rightarrow> exn + pyval" where
  "py_get v key dflt =
     (case v of
        PDict kvs \<Rightarrow> Inr (case map_of kvs key of None \<Rightarrow> dflt | Some x \<Rightarrow> x)
      | _ \<Rightarrow> Inl (no_attribute v (py ''get'')))"

text \<open>Truthiness, as \<open>if models:\<close> tests it.\<close>

fun truthy :: "pyval \<Rightarrow> bool" where
  "truthy PNone = False"
| "truthy (PBool b) = b"
| "truthy (PInt i) = (i \<noteq> 0)"
| "truthy (PFloat r) = (r \<noteq> 0)"
| "truthy (PStr s) = (s \<noteq> [])"
| "truthy (PList xs) = (xs \<noteq> [])"
| "truthy (PDict kvs) = (kvs \<noteq> [])"

text \<open>
  The ollama client of the provider: each method either raises or returns the decoded
  response.  \<open>client_generate\<close> and \<open>client_chat\<close> take the model, the prompt or the
  messages, and the temperature of \<open>options\<close>.
\<close>

record client =
  client_generate :: "pyval \<Rightarrow> pystr \<Rightarrow> real \<Rightarrow> exn + pyval"
  client_chat :: "pyval \<Rightarrow> pyval \<Rightarrow> real \<Rightarrow> exn + pyval"
  client_list :: "exn + pyval"

record provider =
  host :: pystr
  model_name :: pyval
  temperature :: real
  client :: client

text \<open>\<open>try: ... except Exception as e: handler\<close> and \<open>except json.JSONDecodeError\<close>.\<close>

definition except_Exception :: "exn + 'a \<Rightarrow> (exn \<Rightarrow> exn + 'a) \<Rightarrow> exn + 'a" where
  "except_Exception body handler = (case body of Inl e \<Rightarrow> handler e | Inr x \<Rightarrow> Inr x)"

definition except_JSONDecodeError :: "exn + 'a \<Rightarrow> (exn \<Rightarrow> exn + 'a) \<Rightarrow> exn + 'a" where
  "except_JSONDecodeError body handler =
     (case body of
        Inl e \<Rightarrow> (if exn_class e = JSONDecodeError then handler e else Inl e)
      | Inr x \<Rightarrow> Inr x)"

subsection \<open>Generation\<close>

text \<open>\<open>temp = temperature if temperature is not None else self.temperature\<close>.\<close>

definition call_temperature :: "provider \<Rightarrow> real option \<Rightarrow> real" where
  "call_temperature self temp_arg = (case temp_arg of Some t \<Rightarrow> t | None \<Rightarrow> temperature self)"

definition generate_text :: "provider \<Rightarrow> pystr \<Rightarrow> real option \<Rightarrow> exn + pyval" where
  "generate_text self prompt temp_arg =
     except_Exception
       (and_then
          (client_generate (client self) (model_name self) prompt
             (call_temperature self temp_arg))
          (\<lambda>response.
             py_get response (py ''response'') (PStr (py ''No response from model''))))
       (\<lambda>e. Inr (PStr (py ''Error: '' @ exn_str e)))"

definition generate_chat :: "provider \<Rightarrow> pyval \<Rightarrow> real option \<Rightarrow> exn + pyval" where
  "generate_chat self messages temp_arg =
     except_Exception
       (and_then
          (client_chat (client self) (model_name self) messages
             (call_temperature self temp_arg))
          (\<lambda>response.
             and_then (py_get response (py ''message'') (PDict [])) (\<lambda>message.
             py_get message (py ''content'') (PStr (py ''No response from model'')))))
       (\<lambda>e. Inr (PStr (py ''Error: '' @ exn_str e)))"

text \<open>
  The source marks a failure by the prefix \<open>Error: \<close> of the returned string: this is
  the only tag a caller of \<open>generate_chat\<close> can test.
\<close>

definition error_tagged :: "pyval \<Rightarrow> bool" where
  "error_tagged v = (case v of PStr s \<Rightarrow> prefix (py ''Error: '') s | _ \<Rightarrow> False)"

definition is_dict :: "pyval \<Rightarrow> bool" where
  "is_dict v = (case v of PDict kvs \<Rightarrow> True | _ \<Rightarrow> False)"

text \<open>
  What the extraction step of \<open>generate_json\<close> raises when \<open>generate_text\<close> returned
  something that is not a \<open>str\<close>: \<open>in\<close> raises \<open>TypeError\<close> on a value that is not
  iterable; a list or a dict passes the \<open>in\<close> tests and fails at \<open>.split\<close> or \<open>.strip\<close>.
\<close>

definition extract_non_str :: "pyval \<Rightarrow> exn" where
  "extract_non_str v =
     (case v of
        PList xs \<Rightarrow>
          (if PStr json_marker \<in> set xs \<or> PStr fence \<in> set xs
           then no_attribute v (py ''split'') else no_attribute v (py ''strip''))
      | PDict kvs \<Rightarrow>
          (if map_of kvs json_marker \<noteq> None \<or> map_of kvs fence \<noteq> None
           then no_attribute v (py ''split'') else no_attribute v (py ''strip''))
      | _ \<Rightarrow> Exn TypeError
               (py ''argument of type '' @ [39] @ type_name v @ [39] @ py '' is not iterable''))"

text \<open>
  \<open>generate_json\<close>.  \<open>json.loads\<close> is the standard library's, not this repository's:
  it is the parameter \<open>loads\<close>, which raises or returns the decoded value.
\<close>

definition generate_json :: "(pystr \<Rightarrow> exn + pyval) \<Rightarrow> provider \<Rightarrow> pystr \<Rightarrow> exn + pyval" where
  "generate_json loads self prompt =
     (let formatted_prompt = prompt @ py ''\<newline>\<newline>Respond with valid JSON only.'' in
      and_then (generate_text self formatted_prompt None) (\<lambda>response_text.
      except_JSONDecodeError
        (and_then
           (case response_text of
              PStr text \<Rightarrow> extract_json text
            | _ \<Rightarrow> Inl (extract_non_str response_text))
           loads)
        (\<lambda>e. Inr (PDict [(py ''error'', PStr (py ''Failed to parse JSON: '' @ exn_str e)),
                           (py ''raw_text'', response_text)]))))"

text \<open>A client that answers every call with the same outcome.\<close>

definition const_client :: "exn + pyval \<Rightarrow> client" where
  "const_client r =
     \<lparr>client_generate = (\<lambda>m p t. r), client_chat = (\<lambda>m ms t. r), client_list = r\<rparr>"

definition test_provider :: "exn + pyval \<Rightarrow> provider" where
  "test_provider r =
     \<lparr>host = py ''http://127.0.0.1:11434'', model_name = PStr (py ''mistral''),
      temperature = 7 / 10, client = const_client r\<rparr>"

subsection \<open>A reference decoder for concrete texts\<close>

text \<open>
  \<open>json_loads_core\<close> decodes a core of JSON (objects, arrays, strings without escapes,
  integers, \<open>true\<close>, \<open>false\<close>, \<open>null\<close>) and raises \<open>JSONDecodeError\<close> on anything else.
  It stands for \<open>json.loads\<close> where a property of \<open>generate_json\<close> is instantiated at
  a concrete text; the properties themselves hold for any \<open>loads\<close>.
\<close>

definition json_ws :: "nat \<Rightarrow> bool" where
  "json_ws c = (c = 32 \<or> c = 9 \<or> c = 10 \<or> c = 13)"

definition is_digit :: "nat \<Rightarrow> bool" where
  "is_digit c = (48 \<le> c \<and> c \<le> 57)"

definition scan_string :: "pystr \<Rightarrow> (pystr \<times> pystr) option" where
  "scan_string s =
     (let body = takeWhile (\<lambda>c. c \<noteq> 34 \<and> c \<noteq> 92 \<and> 32 \<le> c) s in
      (case drop (length body) s of
         [] \<Rightarrow> None
       | c # r \<Rightarrow> if c = 34 then Some (body, r) else None))"

definition digits_value :: "pystr \<Rightarrow> int" where
  "digits_value ds = foldl (\<lambda>acc d. 10 * acc + (int d - 48)) 0 ds"

definition scan_int :: "pystr \<Rightarrow> (int \<times> pystr) option" where
  "scan_int s =
     (let neg = (s \<noteq> [] \<and> hd s = 45);
          t = (if neg then tl s else s);
          ds = takeWhile is_digit t;
          r = drop (length ds) t
      in if ds = [] \<or> (1 < length ds \<and> hd ds = 48) then None
         else if r \<noteq> [] \<and> (hd r = 46 \<or> hd r = 101 \<or> hd r = 69) then None
         else Some (if neg then - digits_value ds else digits_value ds, r))"

fun json_value :: "nat \<Rightarrow> pystr \<Rightarrow> (pyval \<times> pystr) option"
  and json_elems :: "nat \<Rightarrow> pyval list \<Rightarrow> pystr \<Rightarrow> (pyval \<times> pystr) option"
  and json_members :: "nat \<Rightarrow> (pystr \<times> pyval) list \<Rightarrow> pystr \<Rightarrow> (pyval \<times> pystr) option"
where
  "json_value 0 s = None"
| "json_value (Suc n) s =
     (case dropWhile json_ws s of
        [] \<Rightarrow> None
      | c # r \<Rightarrow>
          if c = 123 then
            (case dropWhile json_ws r of
               [] \<Rightarrow> None
             | d # r' \<Rightarrow> if d = 125 then Some (PDict [], r') else json_members n [] r)
          else if c = 91 then
            (case dropWhile json_ws r of
               [] \<Rightarrow> None
             | d # r' \<Rightarrow> if d = 93 then Some (PList [], r') else json_elems n [] r)
          else if c = 34 then
            (case scan_string r of None \<Rightarrow> None | Some (t, r') \<Rightarrow> Some (PStr t, r'))
          else if prefix (py ''true'') (c # r) then Some (PBool True, drop 4 (c # r))
          else if prefix (py ''false'') (c # r) then Some (PBool False, drop 5 (c # r))
          else if prefix (py ''null'') (c # r) then Some (PNone, drop 4 (c # r))
          else (case scan_int (c # r) of None \<Rightarrow> None | Some (i, r') \<Rightarrow> Some (PInt i, r')))"
| "json_elems 0 acc s = None"
| "json_elems (Suc n) acc s =
     (case json_value n s of
        None \<Rightarrow> None
      | Some (v, r) \<Rightarrow>
          (case dropWhile json_ws r of
             [] \<Rightarrow> None
           | d # r' \<Rightarrow>
               if d = 44 then json_elems n (acc @ [v]) r'
               else if d = 93 then Some (PList (acc @ [v]), r')
               else None))"
| "json_members 0 acc s = None"
| "json_members (Suc n) acc s =
     (case dropWhile json_ws s of
        [] \<Rightarrow> None
      | q # r \<Rightarrow>
          if q \<noteq> 34 then None
          else
            (case scan_string r of
               None \<Rightarrow> None
             | Some (k, r1) \<Rightarrow>
                 (case dropWhile json_ws r1 of
                    [] \<Rightarrow> None
                  | c # r2 \<Rightarrow>
                      if c \<noteq> 58 then None
                      else
                        (case json_value n r2 of
                           None \<Rightarrow> None
                         | Some (v, r3) \<Rightarrow>
                             (case dropWhile json_ws r3 of
                                [] \<Rightarrow> None
                              | d # r4 \<Rightarrow>
                                  if d = 44 then json_members n (AList.update k v acc) r4
                                  else if d = 125 then Some (PDict (AList.update k v acc), r4)
                                  else None)))))"

definition json_loads_core :: "pystr \<Rightarrow> exn + pyval" where
  "json_loads_core s =
     (case json_value (2 * length s + 2) s of
        None \<Rightarrow> Inl (Exn JSONDecodeError (py ''Expecting value''))
      | Some (v, r) \<Rightarrow>
          if dropWhile json_ws r = [] then Inr v
          else Inl (Exn JSONDecodeError (py ''Extra data'')))"

section \<open>The model catalog and the choice of the model\<close>

text \<open>
  What the provider prints, as the message and the value interpolated into it.
\<close>

datatype printed =
  ErrorFetchingModels exn
| DefaultModelNotFound pyval
| NoModelsAvailable
| ErrorCheckingModels exn
| ModelNotFound pystr
| ErrorSettingModel exn

text \<open>
  \<open>get_available_models\<close>: the value returned and the lines printed.  Every exception
  is caught inside.
\<close>

definition get_available_models :: "provider \<Rightarrow> pyval \<times> printed list" where
  "get_available_models self =
     (case and_then (client_list (client self))
             (\<lambda>models. py_get models (py ''models'') (PList [])) of
        Inr v \<Rightarrow> (v, [])
      | Inl e \<Rightarrow> (PList [], [ErrorFetchingModels e]))"

text \<open>\<open>for x in v\<close>: the elements iterated over, \<open>TypeError\<close> when \<open>v\<close> is not iterable.\<close>

definition py_iter :: "pyval \<Rightarrow> exn + pyval list" where
  "py_iter v =
     (case v of
        PList xs \<Rightarrow> Inr xs
      | PDict kvs \<Rightarrow> Inr (map (\<lambda>kv. PStr (fst kv)) kvs)
      | PStr s \<Rightarrow> Inr (map (\<lambda>c. PStr [c]) s)
      | _ \<Rightarrow> Inl (Exn TypeError ([39] @ type_name v @ [39] @ py '' object is not iterable'')))"

text \<open>\<open>v[0]\<close>.\<close>

definition py_item0 :: "pyval \<Rightarrow> exn + pyval" where
  "py_item0 v =
     (case v of
        PList xs \<Rightarrow> py_index xs 0
      | PStr s \<Rightarrow>
          (if s = [] then Inl (Exn IndexError (py ''string index out of range''))
           else Inr (PStr [hd s]))
      | PDict kvs \<Rightarrow> Inl (Exn KeyError (py ''0''))
      | _ \<Rightarrow> Inl (Exn TypeError
                 ([39] @ type_name v @ [39] @ py '' object is not subscriptable'')))"

text \<open>A list comprehension whose element expression may raise: the first error wins.\<close>

fun map_result :: "('a \<Rightarrow> exn + 'b) \<Rightarrow> 'a list \<Rightarrow> exn + 'b list" where
  "map_result f [] = Inr []"
| "map_result f (x # xs) =
     and_then (f x) (\<lambda>y. and_then (map_result f xs) (\<lambda>ys. Inr (y # ys)))"

text \<open>
  \<open>OllamaProvider.__init__\<close>.  \<open>connect\<close> is \<open>ollama.Client(host=...)\<close>.  The result is
  the provider built and the lines printed.
\<close>

definition init_provider :: "(pystr \<Rightarrow> client) \<Rightarrow> pystr \<Rightarrow> pystr \<Rightarrow> provider \<times> printed list" where
  "init_provider connect host_arg model_arg =
     (let self = \<lparr>host = host_arg, model_name = PStr model_arg, temperature = 7 / 10,
                  client = connect host_arg\<rparr>;
          models = fst (get_available_models self);
          out = snd (get_available_models self)
      in case
           (if truthy models then
              and_then (py_iter models) (\<lambda>items.
              and_then (map_result (\<lambda>model. py_get model (py ''model'') (PStr [])) items)
                (\<lambda>model_names.
                   if PStr model_arg \<notin> set model_names then
                     and_then (py_item0 models) (\<lambda>first.
                     and_then (py_get first (py ''model'') (PStr [])) (\<lambda>name.
                     Inr (self\<lparr>model_name := name\<rparr>, out @ [DefaultModelNotFound name])))
                   else Inr (self, out)))
            else Inr (self\<lparr>model_name := PNone\<rparr>, out @ [NoModelsAvailable]))
         of
           Inr r \<Rightarrow> r
         | Inl e \<Rightarrow> (self, out @ [ErrorCheckingModels e]))"

text \<open>
  \<open>any(model.get('name') == model_name for model in available_models)\<close>: the
  generator is consumed up to the first hit, so a later element that raises is not
  reached.
\<close>

fun any_name :: "pystr \<Rightarrow> pyval list \<Rightarrow> exn + bool" where
  "any_name n [] = Inr False"
| "any_name n (model # models) =
     and_then (py_get model (py ''name'') PNone)
       (\<lambda>v. if v = PStr n then Inr True else any_name n models)"

text \<open>\<open>set_model\<close>: the boolean returned, the provider afterwards, the lines printed.\<close>

definition set_model :: "provider \<Rightarrow> pystr \<Rightarrow> bool \<times> provider \<times> printed list" where
  "set_model self n =
     (let available_models = fst (get_available_models self);
          out = snd (get_available_models self)
      in case and_then (py_iter available_models) (any_name n) of
           Inr model_exists \<Rightarrow>
             (if model_exists then (True, self\<lparr>model_name := PStr n\<rparr>, out)
              else (False, self, out @ [ModelNotFound n]))
         | Inl e \<Rightarrow> (False, self, out @ [ErrorSettingModel e]))"

text \<open>
  The name of a model descriptor, as \<open>__init__\<close> and the settings panel read it:
  \<open>model.get('model', '')\<close> on a mapping.
\<close>

definition descriptor_name :: "(pystr \<times> pyval) list \<Rightarrow> pyval" where
  "descriptor_name d = (case map_of d (py ''model'') of None \<Rightarrow> PStr [] | Some v \<Rightarrow> v)"

section \<open>The chat application (\<open>chatbot_app.py\<close>)\<close>

subsection \<open>Saving the settings: \<open>ModelSettingsPanel._handle_save\<close>\<close>

text \<open>
  The state of the panel that \<open>_handle_save\<close> reads and writes: the values of the three
  inputs, whether a page and an \<open>on_save\<close> callback are attached, the provider, and what
  the handler produced (snack bars shown, calls of \<open>on_save\<close>, lines printed).
\<close>

record panel =
  model_combo_value :: "pystr option"
  endpoint_input_value :: pystr
  temperature_slider_value :: real
  has_page :: bool
  has_on_save :: bool
  visible :: bool
  llm_provider :: provider
  snack_bars :: "pystr list"
  on_save_calls :: "(pystr option \<times> pystr \<times> real) list"
  stdout :: "printed list"

text \<open>The provider after \<open>if endpoint != self.llm_provider.host: ...\<close>.\<close>

definition with_endpoint :: "(pystr \<Rightarrow> client) \<Rightarrow> panel \<Rightarrow> provider" where
  "with_endpoint connect p =
     (let endpoint = strip (endpoint_input_value p) in
      if endpoint \<noteq> host (llm_provider p)
      then (llm_provider p)\<lparr>host := endpoint, client := connect endpoint\<rparr>
      else llm_provider p)"

text \<open>\<open>if model_name and model_name != "No models found"\<close>.\<close>

definition model_selected :: "panel \<Rightarrow> bool" where
  "model_selected p =
     (case model_combo_value p of
        None \<Rightarrow> False
      | Some n \<Rightarrow> n \<noteq> [] \<and> n \<noteq> py ''No models found'')"

text \<open>The early \<open>return\<close>: a model is selected, \<open>set_model\<close> fails and a page is attached.\<close>

definition save_aborted :: "(pystr \<Rightarrow> client) \<Rightarrow> panel \<Rightarrow> bool" where
  "save_aborted connect p =
     (case model_combo_value p of
        None \<Rightarrow> False
      | Some n \<Rightarrow>
          model_selected p \<and> \<not> fst (set_model (with_endpoint connect p) n) \<and> has_page p)"

definition handle_save :: "(pystr \<Rightarrow> client) \<Rightarrow> panel \<Rightarrow> panel" where
  "handle_save connect p =
     (let model_name = model_combo_value p;
          endpoint = strip (endpoint_input_value p);
          temp = temperature_slider_value p;
          prov1 = with_endpoint connect p;
          finish = (\<lambda>prov out.
            p\<lparr>llm_provider := prov\<lparr>temperature := temp\<rparr>,
              on_save_calls :=
                (if has_on_save p then on_save_calls p @ [(model_name, endpoint, temp)]
                 else on_save_calls p),
              stdout := stdout p @ out,
              visible := False\<rparr>)
      in if model_selected p then
           (case model_name of
              None \<Rightarrow> finish prov1 []
            | Some n \<Rightarrow>
                (case set_model prov1 n of
                   (success, prov2, out) \<Rightarrow>
                     if \<not> success \<and> has_page p then
                       p\<lparr>llm_provider := prov2,
                         snack_bars := snack_bars p @ [py ''Failed to set model to '' @ n],
                         stdout := stdout p @ out\<rparr>
                     else finish prov2 out))
         else finish prov1 [])"

subsection \<open>Submitting a message: \<open>ChatApp.send_message\<close>\<close>

datatype control = ChatMessage pystr pystr | TypingIndicator

text \<open>
  The state of the application that \<open>send_message\<close> reads and writes: the controls of
  the transcript, the text of the input field, and the worker threads started, each with
  the message its \<open>process_message\<close> coroutine was created for.
\<close>

record chat_app =
  chat_display :: "control list"
  chat_input_value :: pystr
  threads_started :: "pystr list"
  focus_calls :: nat
  page_updates :: nat

definition send_message :: "chat_app \<Rightarrow> chat_app" where
  "send_message self =
     (let user_message = strip (chat_input_value self) in
      if user_message = [] then self
      else self\<lparr>chat_display := chat_display self @ [ChatMessage (py ''You'') user_message],
                chat_input_value := [],
                focus_calls := Suc (focus_calls self),
                page_updates := Suc (page_updates self),
                threads_started := threads_started self @ [user_message]\<rparr>)"

text \<open>A panel and an application state for the concrete cases below.\<close>

definition test_panel :: "pystr option \<Rightarrow> real \<Rightarrow> exn + pyval \<Rightarrow> panel" where
  "test_panel m v r =
     \<lparr>model_combo_value = m, endpoint_input_value = py ''http://127.0.0.1:11434'',
      temperature_slider_value = v, has_page = True, has_on_save = True, visible = True,
      llm_provider = test_provider r, snack_bars = [], on_save_calls = [], stdout = []\<rparr>"

definition test_app :: "pystr \<Rightarrow> chat_app" where
  "test_app text =
     \<lparr>chat_display = [ChatMessage (py ''You'') (py ''hello''), ChatMessage (py ''Bot'') (py ''hi there'')],
      chat_input_value = text, threads_started = [py ''hello''], focus_calls = 1,
      page_updates = 3\<rparr>"

text \<open>The application right after start, with \<open>text\<close> typed into the input field.\<close>

definition idle_app :: "pystr \<Rightarrow> chat_app" where
  "idle_app text =
     \<lparr>chat_display = [], chat_input_value = text, threads_started = [], focus_calls = 0,
      page_updates = 0\<rparr>"

section \<open>Properties of the extraction step of \<open>generate_json\<close>\<close>

subsection \<open>Leftmost occurrences\<close>

text \<open>
  \<open>s = b @ sep @ a\<close> splits \<open>s\<close> at the leftmost occurrence of \<open>sep\<close> exactly when
  \<open>sep\<close> does not occur in \<open>b @ butlast sep\<close>: no occurrence starts inside \<open>b\<close>.
\<close>

lemma py_in_sublist: "py_in sub s \<longleftrightarrow> sublist sub s"
proof (induction s)
  case Nil show ?case by simp
next
  case (Cons c cs)
  show ?case
  proof (cases sub)
    case Nil then show ?thesis by simp
  next
    case (Cons x xs)
    with Cons.IH show ?thesis by (simp add: sublist_Cons_right)
  qed
qed

lemma partition_py_None: "partition_py sep s = None \<longleftrightarrow> \<not> sublist sep s"
proof (induction s)
  case Nil show ?case by simp
next
  case (Cons c cs)
  show ?case
  proof (cases sep)
    case Nil then show ?thesis by simp
  next
    case (Cons x xs)
    with Cons.IH show ?thesis by (auto simp: sublist_Cons_right split: option.splits)
  qed
qed

lemma prefix_short: "prefix xs (ys @ zs) \<Longrightarrow> length xs \<le> length ys \<Longrightarrow> prefix xs ys"
  by (auto simp: prefix_append)

lemma occurrence_in_front:
  assumes "prefix sep (b @ sep @ a)" "sep \<noteq> []" "b \<noteq> []"
  shows "sublist sep (b @ butlast sep)"
proof -
  have len: "length sep \<le> length (b @ butlast sep)"
    using assms(2,3) by (cases b) auto
  have "b @ sep @ a = (b @ butlast sep) @ ([last sep] @ a)"
    using assms(2) by simp
  with assms(1) have "prefix sep ((b @ butlast sep) @ ([last sep] @ a))" by simp
  from prefix_short [OF this len] show ?thesis by (rule prefix_imp_sublist)
qed

lemma partition_py_first:
  assumes "sep \<noteq> []"
  shows "\<not> sublist sep (b @ butlast sep) \<Longrightarrow> partition_py sep (b @ sep @ a) = Some (b, a)"
proof (induction b)
  case Nil
  from assms obtain x xs where sep: "sep = x # xs" by (cases sep) auto
  then show ?case by simp
next
  case (Cons x b)
  have np: "\<not> prefix sep ((x # b) @ sep @ a)"
    using occurrence_in_front [of sep "x # b" a] assms Cons.prems by blast
  have "\<not> sublist sep (b @ butlast sep)"
    using Cons.prems by (auto simp: sublist_Cons_right)
  from Cons.IH [OF this] np show ?case by simp
qed

lemma partition_py_is_first:
  assumes "sep \<noteq> []"
  shows "partition_py sep s = Some (b, a) \<Longrightarrow> \<not> sublist sep (b @ butlast sep)"
proof (induction s arbitrary: b)
  case Nil
  with assms show ?case by simp
next
  case (Cons c cs)
  show ?case
  proof (cases "prefix sep (c # cs)")
    case True
    with Cons.prems have "b = []" by simp
    moreover have "length (butlast sep) < length sep" using assms by simp
    then have "\<not> sublist sep (butlast sep)"
      using sublist_length_le by (metis not_le)
    ultimately show ?thesis by simp
  next
    case False
    with Cons.prems obtain b' where b': "partition_py sep cs = Some (b', a)" "b = c # b'"
      by (auto split: option.splits)
    have cs: "cs = b' @ sep @ a" using b'(1) by (rule partition_py_append)
    have "sep @ a = butlast sep @ ([last sep] @ a)"
      using assms by (metis append_butlast_last_id append.assoc)
    then have e: "((c # b') @ butlast sep) @ ([last sep] @ a) = c # cs"
      by (simp add: cs)
    have "\<not> prefix sep ((c # b') @ butlast sep)"
    proof
      assume p: "prefix sep ((c # b') @ butlast sep)"
      from prefix_prefix [OF p, of "[last sep] @ a"] have "prefix sep (c # cs)"
        by (simp only: e)
      with False show False by simp
    qed
    with Cons.IH [OF b'(1)] b'(2) assms show ?thesis
      by (cases sep) (auto simp: sublist_Cons_right)
  qed
qed

subsection \<open>What \<open>split\<close> and indexing return in \<open>extract_json\<close>\<close>

lemma fence_ne: "fence \<noteq> []" by (simp add: fence_def py_def)
lemma marker_ne: "json_marker \<noteq> []" by (simp add: json_marker_def py_def)
lemma marker_fence: "json_marker = fence @ py ''json''" by (simp add: json_marker_def fence_def py_def)

lemma index0_split:
  "sep \<noteq> [] \<Longrightarrow> py_index (split_pieces sep s) 0 = Inr (before_sep sep s)"
  by (subst split_pieces.simps) (simp add: py_index_def before_sep_def split: option.splits)

lemma index1_split:
  "sep \<noteq> [] \<Longrightarrow> partition_py sep s = Some (b, a) \<Longrightarrow>
     py_index (split_pieces sep s) 1 = Inr (before_sep sep a)"
  by (subst split_pieces.simps, subst split_pieces.simps)
     (simp add: py_index_def before_sep_def split: option.splits)

lemma partition_py_Some_sublist: "partition_py sep s = Some (b, a) \<Longrightarrow> sublist sep s"
  by (drule partition_py_append) simp

lemma sublist_left_part: "sublist (xs @ ys) zs \<Longrightarrow> sublist xs zs"
  unfolding sublist_def by (metis append.assoc)

lemma not_sublist_front: "\<not> sublist sep (b @ t) \<Longrightarrow> \<not> sublist sep b"
  using sublist_append by blast

lemma extract_with:
  assumes "partition_py sep raw = Some (pre, rest)" "sep \<noteq> []"
  shows "and_then (py_split raw sep) (\<lambda>parts.
        and_then (py_index parts 1) (\<lambda>part.
        and_then (py_split part fence) (\<lambda>inner.
        and_then (py_index inner 0) (\<lambda>block. Inr (strip block)))))
       = Inr (strip (before_sep fence (before_sep sep rest)))"
  using assms
  by (simp add: py_split_def and_then_def index1_split index0_split fence_ne del: One_nat_def)

lemma extract_json_marker:
  assumes "partition_py json_marker raw = Some (pre, rest)"
  shows "extract_json raw = Inr (strip (before_sep fence (before_sep json_marker rest)))"
proof -
  have "py_in json_marker raw" using assms by (simp add: py_in_sublist partition_py_Some_sublist)
  then show ?thesis
    unfolding extract_json_def using extract_with [OF assms marker_ne] by simp
qed

lemma before_sep_idem:
  assumes "sep \<noteq> []"
  shows "before_sep sep (before_sep sep s) = before_sep sep s"
proof (cases "partition_py sep s")
  case None
  then show ?thesis by (simp add: before_sep_def)
next
  case (Some p)
  obtain b a where p: "p = (b, a)" by (cases p)
  from partition_py_is_first [OF assms Some [unfolded p]]
  have "partition_py sep b = None"
    by (simp add: partition_py_None not_sublist_front)
  with Some p show ?thesis by (simp add: before_sep_def)
qed

lemma extract_json_fence:
  assumes "partition_py json_marker raw = None" "partition_py fence raw = Some (pre, rest)"
  shows "extract_json raw = Inr (strip (before_sep fence rest))"
proof -
  have "\<not> py_in json_marker raw" "py_in fence raw"
    using assms by (simp_all add: py_in_sublist partition_py_Some_sublist partition_py_None)
  then show ?thesis
    unfolding extract_json_def using extract_with [OF assms(2) fence_ne]
    by (simp add: before_sep_idem fence_ne)
qed

lemma extract_json_plain:
  assumes "partition_py fence raw = None"
  shows "extract_json raw = Inr (strip raw)"
proof -
  from assms have nf: "\<not> sublist fence raw" by (simp add: partition_py_None)
  then have "\<not> sublist json_marker raw"
    unfolding marker_fence using sublist_left_part by blast
  with nf show ?thesis by (simp add: extract_json_def py_in_sublist)
qed

lemma fence_val: "fence = [96, 96, 96]" by (simp add: fence_def py_def)

lemma partition_py_not_later:
  "sep \<noteq> [] \<Longrightarrow> partition_py sep (b @ sep @ q) = Some (m, p) \<Longrightarrow> length m \<le> length b"
proof (induction b arbitrary: m)
  case Nil
  then show ?case by (cases sep) auto
next
  case (Cons x b)
  show ?case
  proof (cases "prefix sep ((x # b) @ sep @ q)")
    case True
    with Cons.prems show ?thesis by simp
  next
    case False
    with Cons.prems obtain m' where "partition_py sep (b @ sep @ q) = Some (m', p)" "m = x # m'"
      by (auto split: option.splits)
    with Cons.IH [OF Cons.prems(1)] show ?thesis by simp
  qed
qed

lemma append_eq_split:
  "xs @ ys = zs @ ts \<Longrightarrow> length xs \<le> length zs \<Longrightarrow> \<exists>u. zs = xs @ u \<and> ys = u @ ts"
  by (auto simp: append_eq_append_conv2)

lemma before_sep_first:
  "sep \<noteq> [] \<Longrightarrow> \<not> sublist sep (b @ butlast sep) \<Longrightarrow> before_sep sep (b @ sep @ a) = b"
  by (simp add: before_sep_def partition_py_first)

lemma before_sep_absent: "\<not> sublist sep s \<Longrightarrow> before_sep sep s = s"
  by (simp add: before_sep_def partition_py_None [THEN iffD2])

lemma closing_fence:
  assumes mid: "\<not> sublist fence (mid @ butlast fence)"
    and p1: "\<not> prefix (py ''`json'') post"
    and p2: "\<not> prefix (py ''``json'') post"
  shows "before_sep fence (before_sep json_marker (mid @ fence @ post)) = mid"
proof (cases "partition_py json_marker (mid @ fence @ post)")
  case None
  then show ?thesis by (simp add: before_sep_def partition_py_first [OF fence_ne mid])
next
  case (Some r)
  obtain b a where r: "r = (b, a)" by (cases r)
  from Some r have part: "partition_py json_marker (mid @ fence @ post) = Some (b, a)" by simp
  from partition_py_append [OF part]
  have eq: "mid @ fence @ post = b @ fence @ (py ''json'' @ a)" by (simp add: marker_fence)
  have "partition_py fence (b @ fence @ (py ''json'' @ a)) = Some (mid, post)"
    using partition_py_first [OF fence_ne mid, of post] eq by simp
  from partition_py_not_later [OF fence_ne this] have len: "length mid \<le> length b" .
  from append_eq_split [OF eq len]
  obtain u where b: "b = mid @ u" and u: "fence @ post = u @ fence @ py ''json'' @ a"
    by blast
  have nfm: "\<not> sublist fence mid" using mid by (rule not_sublist_front)
  have "before_sep fence b = mid"
  proof (cases u)
    case Nil
    with b nfm show ?thesis by (simp add: before_sep_absent)
  next
    case u1: (Cons c1 v1)
    show ?thesis
    proof (cases v1)
      case Nil
      with u u1 p1 show ?thesis by (simp add: fence_val py_def)
    next
      case u2: (Cons c2 v2)
      show ?thesis
      proof (cases v2)
        case Nil
        with u u1 u2 p2 show ?thesis by (simp add: fence_val py_def)
      next
        case u3: (Cons c3 v3)
        with u u1 u2 have "u = fence @ v3" by (simp add: fence_val)
        with b show ?thesis by (simp add: before_sep_first [OF fence_ne mid])
      qed
    qed
  qed
  with part show ?thesis by (simp add: before_sep_def)
qed

lemma extract_json_total: "\<exists>block. extract_json raw = Inr block"
proof (cases "partition_py json_marker raw")
  case (Some r)
  then show ?thesis by (cases r) (simp add: extract_json_marker)
next
  case None
  show ?thesis
  proof (cases "partition_py fence raw")
    case (Some r)
    with None show ?thesis by (cases r) (simp add: extract_json_fence)
  next
    case None
    then show ?thesis by (simp add: extract_json_plain)
  qed
qed

lemma extract_json_after_marker:
  assumes "\<not> sublist json_marker (pre @ butlast json_marker)"
  shows "extract_json (pre @ json_marker @ rest) =
         Inr (strip (before_sep fence (before_sep json_marker rest)))"
  by (rule extract_json_marker) (rule partition_py_first [OF marker_ne assms])

lemma extract_json_after_fence:
  assumes "\<not> sublist json_marker (pre @ fence @ rest)" "\<not> sublist fence (pre @ butlast fence)"
  shows "extract_json (pre @ fence @ rest) = Inr (strip (before_sep fence rest))"
  by (rule extract_json_fence)
     (simp_all add: partition_py_None assms partition_py_first [OF fence_ne])

text \<open>
  Claim C10, as amended.  For every raw text the extraction step of \<open>generate_json\<close>
  returns a block and never raises.  If the text contains the marker \<open>```json\<close>, the
  block is taken from the segment that follows the first occurrence of the marker and
  ends at the next occurrence of the marker (or at the end of the text): that segment up
  to its first \<open>```\<close>, whitespace-stripped.  This is the text between the first marker
  and the next following fence whenever that fence is not directly followed by
  \<open>`json\<close> or \<open>``json\<close>, and the rest of the text when no fence follows.  Otherwise, if
  the text contains \<open>```\<close>, the block is the stripped text between the first and the
  second fence (the rest of the text when there is no second fence); otherwise it is the
  whole stripped text.
\<close>

theorem extract_json_block:
  "(\<exists>block. extract_json raw = Inr block) \<and>
   (\<not> sublist json_marker (pre1 @ butlast json_marker) \<longrightarrow>
      extract_json (pre1 @ json_marker @ rest1) =
      Inr (strip (before_sep fence (before_sep json_marker rest1)))) \<and>
   (\<not> sublist json_marker (pre2 @ butlast json_marker) \<and>
    \<not> sublist fence (mid2 @ butlast fence) \<and>
    \<not> prefix (py ''`json'') post2 \<and> \<not> prefix (py ''``json'') post2 \<longrightarrow>
      extract_json (pre2 @ json_marker @ mid2 @ fence @ post2) = Inr (strip mid2)) \<and>
   (\<not> sublist json_marker (pre3 @ butlast json_marker) \<and> \<not> sublist fence rest3 \<longrightarrow>
      extract_json (pre3 @ json_marker @ rest3) = Inr (strip rest3)) \<and>
   (\<not> sublist json_marker (pre4 @ fence @ mid4 @ fence @ post4) \<and>
    \<not> sublist fence (pre4 @ butlast fence) \<and> \<not> sublist fence (mid4 @ butlast fence) \<longrightarrow>
      extract_json (pre4 @ fence @ mid4 @ fence @ post4) = Inr (strip mid4)) \<and>
   (\<not> sublist json_marker (pre5 @ fence @ rest5) \<and>
    \<not> sublist fence (pre5 @ butlast fence) \<and> \<not> sublist fence rest5 \<longrightarrow>
      extract_json (pre5 @ fence @ rest5) = Inr (strip rest5)) \<and>
   (\<not> sublist fence raw6 \<longrightarrow> extract_json raw6 = Inr (strip raw6))"
proof (intro conjI impI)
  show "\<exists>block. extract_json raw = Inr block" by (rule extract_json_total)
next
  assume "\<not> sublist json_marker (pre1 @ butlast json_marker)"
  then show "extract_json (pre1 @ json_marker @ rest1) =
      Inr (strip (before_sep fence (before_sep json_marker rest1)))"
    by (rule extract_json_after_marker)
next
  assume a: "\<not> sublist json_marker (pre2 @ butlast json_marker) \<and>
    \<not> sublist fence (mid2 @ butlast fence) \<and>
    \<not> prefix (py ''`json'') post2 \<and> \<not> prefix (py ''``json'') post2"
  then show "extract_json (pre2 @ json_marker @ mid2 @ fence @ post2) = Inr (strip mid2)"
    by (simp add: extract_json_after_marker closing_fence)
next
  assume a: "\<not> sublist json_marker (pre3 @ butlast json_marker) \<and> \<not> sublist fence rest3"
  then have "\<not> sublist json_marker rest3"
    unfolding marker_fence using sublist_left_part by blast
  with a show "extract_json (pre3 @ json_marker @ rest3) = Inr (strip rest3)"
    by (simp add: extract_json_after_marker before_sep_absent)
next
  assume a: "\<not> sublist json_marker (pre4 @ fence @ mid4 @ fence @ post4) \<and>
    \<not> sublist fence (pre4 @ butlast fence) \<and> \<not> sublist fence (mid4 @ butlast fence)"
  then show "extract_json (pre4 @ fence @ mid4 @ fence @ post4) = Inr (strip mid4)"
    by (simp add: extract_json_after_fence before_sep_first [OF fence_ne])
next
  assume a: "\<not> sublist json_marker (pre5 @ fence @ rest5) \<and>
    \<not> sublist fence (pre5 @ butlast fence) \<and> \<not> sublist fence rest5"
  then show "extract_json (pre5 @ fence @ rest5) = Inr (strip rest5)"
    by (simp add: extract_json_after_fence before_sep_absent)
next
  assume "\<not> sublist fence raw6"
  then show "extract_json raw6 = Inr (strip raw6)"
    by (simp add: extract_json_plain partition_py_None)
qed

text \<open>
  Claim C10 as stated fails: in \<open>```jsonx````json\<close> the first marker is followed by
  \<open>x\<close> and then by a fence, so the claim has \<open>x\<close> parsed; the source splits at the
  second marker first and parses \<open>x`\<close>.
\<close>

theorem extract_json_counterexample:
  "py ''```jsonx````json'' = [] @ json_marker @ py ''x'' @ fence @ py ''`json'' \<and>
   \<not> sublist json_marker ([] @ butlast json_marker) \<and>
   \<not> sublist fence (py ''x'' @ butlast fence) \<and>
   extract_json (py ''```jsonx````json'') = Inr (py ''x`'') \<and>
   py ''x`'' \<noteq> strip (py ''x'')"
  by code_simp

theorem extract_json_block_witness:
  \<open>(\<exists>block. extract_json (py ''not json'') = Inr block) \<and>
   \<not> sublist json_marker (py ''Sure: '' @ butlast json_marker) \<and>
   extract_json (py ''Sure: '' @ json_marker @ py ''[1]````json'') = Inr (py ''[1]`'') \<and>
   \<not> sublist fence (py '' {"a":1} '' @ butlast fence) \<and>
   \<not> prefix (py ''`json'') (py '' bye'') \<and> \<not> prefix (py ''``json'') (py '' bye'') \<and>
   extract_json (py ''Sure: '' @ json_marker @ py '' {"a":1} '' @ fence @ py '' bye'') =
     Inr (py ''{"a":1}'') \<and>
   \<not> sublist fence (py '' [1] '') \<and>
   extract_json (py ''Sure: '' @ json_marker @ py '' [1] '') = Inr (py ''[1]'') \<and>
   \<not> sublist json_marker (py ''a'' @ fence @ py '' {} '' @ fence @ py ''b'') \<and>
   \<not> sublist fence (py ''a'' @ butlast fence) \<and>
   \<not> sublist fence (py '' {} '' @ butlast fence) \<and>
   extract_json (py ''a'' @ fence @ py '' {} '' @ fence @ py ''b'') = Inr (py ''{}'') \<and>
   \<not> sublist json_marker (py ''a'' @ fence @ py '' [1] '') \<and>
   extract_json (py ''a'' @ fence @ py '' [1] '') = Inr (py ''[1]'') \<and>
   \<not> sublist fence (py '' 7 '') \<and>
   extract_json (py '' 7 '') = Inr (py ''7'')\<close>
proof -
  have h1: "\<not> sublist json_marker (py ''Sure: '' @ butlast json_marker)" by code_simp
  have h2: \<open>\<not> sublist fence (py '' {"a":1} '' @ butlast fence)\<close> by code_simp
  have h3: "\<not> prefix (py ''`json'') (py '' bye'')" "\<not> prefix (py ''``json'') (py '' bye'')"
    by code_simp+
  have h4: "\<not> sublist fence (py '' [1] '')" by code_simp
  have h5: "\<not> sublist json_marker (py ''a'' @ fence @ py '' {} '' @ fence @ py ''b'')"
    "\<not> sublist fence (py ''a'' @ butlast fence)" "\<not> sublist fence (py '' {} '' @ butlast fence)"
    by code_simp+
  have h6: "\<not> sublist json_marker (py ''a'' @ fence @ py '' [1] '')" by code_simp
  have h7: "\<not> sublist fence (py '' 7 '')" by code_simp
  have s0: "strip (before_sep fence (before_sep json_marker (py ''[1]````json''))) = py ''[1]`''"
    by code_simp
  have s1: \<open>strip (py '' {"a":1} '') = py ''{"a":1}''\<close> by code_simp
  have s2: "strip (py '' [1] '') = py ''[1]''" by code_simp
  have s3: "strip (py '' {} '') = py ''{}''" by code_simp
  have s4: "strip (py '' 7 '') = py ''7''" by code_simp
  from extract_json_block [of "py ''not json''" "py ''Sure: ''" "py ''[1]````json''"
      "py ''Sure: ''" \<open>py '' {"a":1} ''\<close> "py '' bye''" "py ''Sure: ''" "py '' [1] ''"
      "py ''a''" "py '' {} ''" "py ''b''" "py ''a''" "py '' [1] ''" "py '' 7 ''"]
    h1 h2 h3 h4 h5 h6 h7
  show ?thesis by (simp only: s0 s1 s2 s3 s4 simp_thms)
qed

section \<open>Properties of the generation calls\<close>

lemma py_get_dict:
  "py_get (PDict kvs) key dflt = Inr (case map_of kvs key of None \<Rightarrow> dflt | Some x \<Rightarrow> x)"
  by (simp add: py_get_def)

lemma py_get_not_dict:
  "\<not> is_dict v \<Longrightarrow> py_get v key dflt = Inl (no_attribute v (py ''get''))"
  by (cases v) (simp_all add: py_get_def is_dict_def)

lemma generate_chat_returns: "\<exists>v. generate_chat self messages temp_arg = Inr v"
  by (auto simp: generate_chat_def except_Exception_def split: sum.splits)

text \<open>
  Claim C2, as amended.  \<open>generate_chat\<close> never raises.  When the client call raises (a
  transport or HTTP-status failure, an undecodable body), or the payload or its
  \<open>message\<close> is not a mapping, it returns the string \<open>Error: \<close> followed by the text of
  the exception.  When the payload is a mapping whose \<open>message\<close> is a mapping with a
  \<open>content\<close>, it returns that content.  When the payload is a mapping without
  \<open>message\<close>, or its \<open>message\<close> mapping has no \<open>content\<close>, it returns the fallback text
  \<open>No response from model\<close>, which carries no error tag.
\<close>

theorem generate_chat_result:
  "(\<exists>v. generate_chat self messages temp_arg = Inr v) \<and>
   (client_chat (client self1) (model_name self1) messages1 (call_temperature self1 temp1) = Inl e1
      \<longrightarrow> generate_chat self1 messages1 temp1 = Inr (PStr (py ''Error: '' @ exn_str e1))) \<and>
   (client_chat (client self2) (model_name self2) messages2 (call_temperature self2 temp2) = Inr r2
      \<and> \<not> is_dict r2
      \<longrightarrow> generate_chat self2 messages2 temp2 =
          Inr (PStr (py ''Error: '' @ exn_str (no_attribute r2 (py ''get''))))) \<and>
   (client_chat (client self3) (model_name self3) messages3 (call_temperature self3 temp3) =
        Inr (PDict kvs3)
      \<and> map_of kvs3 (py ''message'') = Some m3 \<and> \<not> is_dict m3
      \<longrightarrow> generate_chat self3 messages3 temp3 =
          Inr (PStr (py ''Error: '' @ exn_str (no_attribute m3 (py ''get''))))) \<and>
   (client_chat (client self4) (model_name self4) messages4 (call_temperature self4 temp4) =
        Inr (PDict kvs4)
      \<and> map_of kvs4 (py ''message'') = Some (PDict m4) \<and> map_of m4 (py ''content'') = Some text4
      \<longrightarrow> generate_chat self4 messages4 temp4 = Inr text4) \<and>
   (client_chat (client self5) (model_name self5) messages5 (call_temperature self5 temp5) =
        Inr (PDict kvs5)
      \<and> map_of kvs5 (py ''message'') = Some (PDict m5) \<and> map_of m5 (py ''content'') = None
      \<longrightarrow> generate_chat self5 messages5 temp5 = Inr (PStr (py ''No response from model''))) \<and>
   (client_chat (client self6) (model_name self6) messages6 (call_temperature self6 temp6) =
        Inr (PDict kvs6)
      \<and> map_of kvs6 (py ''message'') = None
      \<longrightarrow> generate_chat self6 messages6 temp6 = Inr (PStr (py ''No response from model'')))"
proof (intro conjI impI)
  show "\<exists>v. generate_chat self messages temp_arg = Inr v" by (rule generate_chat_returns)
next
  assume "client_chat (client self1) (model_name self1) messages1 (call_temperature self1 temp1) = Inl e1"
  then show "generate_chat self1 messages1 temp1 = Inr (PStr (py ''Error: '' @ exn_str e1))"
    by (simp add: generate_chat_def except_Exception_def and_then_def)
next
  assume "client_chat (client self2) (model_name self2) messages2 (call_temperature self2 temp2) = Inr r2
      \<and> \<not> is_dict r2"
  then show "generate_chat self2 messages2 temp2 =
          Inr (PStr (py ''Error: '' @ exn_str (no_attribute r2 (py ''get''))))"
    by (simp add: generate_chat_def except_Exception_def and_then_def py_get_not_dict)
next
  assume "client_chat (client self3) (model_name self3) messages3 (call_temperature self3 temp3) =
        Inr (PDict kvs3)
      \<and> map_of kvs3 (py ''message'') = Some m3 \<and> \<not> is_dict m3"
  then show "generate_chat self3 messages3 temp3 =
          Inr (PStr (py ''Error: '' @ exn_str (no_attribute m3 (py ''get''))))"
    by (simp add: generate_chat_def except_Exception_def and_then_def py_get_not_dict py_get_dict)
next
  assume "client_chat (client self4) (model_name self4) messages4 (call_temperature self4 temp4) =
        Inr (PDict kvs4)
      \<and> map_of kvs4 (py ''message'') = Some (PDict m4) \<and> map_of m4 (py ''content'') = Some text4"
  then show "generate_chat self4 messages4 temp4 = Inr text4"
    by (simp add: generate_chat_def except_Exception_def and_then_def py_get_dict)
next
  assume "client_chat (client self5) (model_name self5) messages5 (call_temperature self5 temp5) =
        Inr (PDict kvs5)
      \<and> map_of kvs5 (py ''message'') = Some (PDict m5) \<and> map_of m5 (py ''content'') = None"
  then show "generate_chat self5 messages5 temp5 = Inr (PStr (py ''No response from model''))"
    by (simp add: generate_chat_def except_Exception_def and_then_def py_get_dict)
next
  assume "client_chat (client self6) (model_name self6) messages6 (call_temperature self6 temp6) =
        Inr (PDict kvs6)
      \<and> map_of kvs6 (py ''message'') = None"
  then show "generate_chat self6 messages6 temp6 = Inr (PStr (py ''No response from model''))"
    by (simp add: generate_chat_def except_Exception_def and_then_def py_get_dict)
qed

theorem generate_chat_result_witness:
  "(\<exists>v. generate_chat (test_provider (Inr PNone)) (PList []) None = Inr v) \<and>
   client_chat (client (test_provider (Inl (Exn BackendError (py ''connection refused'')))))
     (model_name (test_provider (Inl (Exn BackendError (py ''connection refused''))))) (PList [])
     (call_temperature (test_provider (Inl (Exn BackendError (py ''connection refused'')))) None)
     = Inl (Exn BackendError (py ''connection refused'')) \<and>
   generate_chat (test_provider (Inl (Exn BackendError (py ''connection refused'')))) (PList []) None
     = Inr (PStr (py ''Error: connection refused'')) \<and>
   \<not> is_dict PNone \<and>
   generate_chat (test_provider (Inr PNone)) (PList []) None
     = Inr (PStr (py ''Error: '' @ [39] @ py ''NoneType'' @ [39] @
                  py '' object has no attribute '' @ [39] @ py ''get'' @ [39])) \<and>
   map_of [(py ''message'', PInt 3)] (py ''message'') = Some (PInt 3) \<and> \<not> is_dict (PInt 3) \<and>
   generate_chat (test_provider (Inr (PDict [(py ''message'', PInt 3)]))) (PList []) None
     = Inr (PStr (py ''Error: '' @ [39] @ py ''int'' @ [39] @
                  py '' object has no attribute '' @ [39] @ py ''get'' @ [39])) \<and>
   map_of [(py ''role'', PStr (py ''assistant'')), (py ''content'', PStr (py ''hi there''))]
     (py ''content'') = Some (PStr (py ''hi there'')) \<and>
   generate_chat
     (test_provider (Inr (PDict [(py ''message'',
        PDict [(py ''role'', PStr (py ''assistant'')), (py ''content'', PStr (py ''hi there''))])])))
     (PList []) (Some 2) = Inr (PStr (py ''hi there'')) \<and>
   map_of [(py ''role'', PStr (py ''assistant''))] (py ''content'') = None \<and>
   generate_chat
     (test_provider (Inr (PDict [(py ''message'', PDict [(py ''role'', PStr (py ''assistant''))])])))
     (PList []) None = Inr (PStr (py ''No response from model'')) \<and>
   map_of [(py ''done'', PBool True)] (py ''message'') = None \<and>
   generate_chat (test_provider (Inr (PDict [(py ''done'', PBool True)]))) (PList []) None
     = Inr (PStr (py ''No response from model''))"
proof -
  have c: "\<And>r m ms t. client_chat (client (test_provider r)) m ms t = r"
    by (simp add: test_provider_def const_client_def)
  have m3: "map_of [(py ''message'', PInt 3)] (py ''message'') = Some (PInt 3)" by simp
  have m4: "map_of [(py ''message'',
        PDict [(py ''role'', PStr (py ''assistant'')), (py ''content'', PStr (py ''hi there''))])]
        (py ''message'') =
      Some (PDict [(py ''role'', PStr (py ''assistant'')), (py ''content'', PStr (py ''hi there''))])"
    by simp
  have c4: "map_of [(py ''role'', PStr (py ''assistant'')), (py ''content'', PStr (py ''hi there''))]
     (py ''content'') = Some (PStr (py ''hi there''))" by (simp add: py_def)
  have m5: "map_of [(py ''message'', PDict [(py ''role'', PStr (py ''assistant''))])] (py ''message'')
      = Some (PDict [(py ''role'', PStr (py ''assistant''))])" by simp
  have c5: "map_of [(py ''role'', PStr (py ''assistant''))] (py ''content'') = None"
    by (simp add: py_def)
  have m6: "map_of [(py ''done'', PBool True)] (py ''message'') = None" by (simp add: py_def)
  have d: "\<not> is_dict PNone" "\<not> is_dict (PInt 3)" by (simp_all add: is_dict_def)
  have e1: "py ''Error: '' @ exn_str (Exn BackendError (py ''connection refused''))
      = py ''Error: connection refused''" by (simp add: py_def)
  have e2: "\<And>v. exn_str (no_attribute v (py ''get'')) =
      [39] @ type_name v @ [39] @ py '' object has no attribute '' @ [39] @ py ''get'' @ [39]"
    by (simp add: no_attribute_def)
  have t: "type_name PNone = py ''NoneType''" "type_name (PInt 3) = py ''int''" by simp_all
  note generate_chat_result [of "test_provider (Inr PNone)" "PList []" None
      "test_provider (Inl (Exn BackendError (py ''connection refused'')))" "PList []" None
      "Exn BackendError (py ''connection refused'')"
      "test_provider (Inr PNone)" "PList []" None PNone
      "test_provider (Inr (PDict [(py ''message'', PInt 3)]))" "PList []" None
      "[(py ''message'', PInt 3)]" "PInt 3"
      "test_provider (Inr (PDict [(py ''message'',
        PDict [(py ''role'', PStr (py ''assistant'')), (py ''content'', PStr (py ''hi there''))])]))"
      "PList []" "Some 2"
      "[(py ''message'',
        PDict [(py ''role'', PStr (py ''assistant'')), (py ''content'', PStr (py ''hi there''))])]"
      "[(py ''role'', PStr (py ''assistant'')), (py ''content'', PStr (py ''hi there''))]"
      "PStr (py ''hi there'')"
      "test_provider (Inr (PDict [(py ''message'', PDict [(py ''role'', PStr (py ''assistant''))])]))"
      "PList []" None
      "[(py ''message'', PDict [(py ''role'', PStr (py ''assistant''))])]"
      "[(py ''role'', PStr (py ''assistant''))]"
      "test_provider (Inr (PDict [(py ''done'', PBool True)]))" "PList []" None
      "[(py ''done'', PBool True)]"]
  then have T: "?thesis" unfolding c e2 t e1 using m3 m4 c4 m5 c5 m6 d by blast
  then show ?thesis .
qed

text \<open>
  Claim C2 as stated fails on a malformed payload: for a response without \<open>message\<close>
  the result is the fallback text, not a result tagged as an error.
\<close>

theorem generate_chat_counterexample:
  "client_chat (client (test_provider (Inr (PDict [])))) (PStr (py ''mistral''))
     (PList [PDict [(py ''role'', PStr (py ''user'')), (py ''content'', PStr (py ''hello''))]])
     (7 / 10) = Inr (PDict []) \<and>
   generate_chat (test_provider (Inr (PDict [])))
     (PList [PDict [(py ''role'', PStr (py ''user'')), (py ''content'', PStr (py ''hello''))]])
     (Some (7 / 10)) = Inr (PStr (py ''No response from model'')) \<and>
   \<not> error_tagged (PStr (py ''No response from model''))"
  by (simp add: generate_chat_def except_Exception_def and_then_def py_get_dict test_provider_def
      const_client_def error_tagged_def py_def)



text \<open>
  Claim C8.  When the raw model response is exactly the fenced block
  \<open>```json\<close>, newline, \<open>{"a":1}\<close>, newline, \<open>```\<close>, extraction strips the fence and
  \<open>generate_json\<close> returns what \<open>json.loads\<close> yields for \<open>{"a":1}\<close>: the object that
  maps \<open>a\<close> to 1.
\<close>

theorem generate_json_fenced:
  assumes \<open>generate_text self (prompt @ py ''\<newline>\<newline>Respond with valid JSON only.'') None
           = Inr (PStr (py ''```json\<newline>{"a":1}\<newline>```''))\<close>
    and \<open>loads (py ''{"a":1}'') = Inr (PDict [(py ''a'', PInt 1)])\<close>
  shows \<open>extract_json (py ''```json\<newline>{"a":1}\<newline>```'') = Inr (py ''{"a":1}'') \<and>
         generate_json loads self prompt = Inr (PDict [(py ''a'', PInt 1)])\<close>
proof -
  have e: \<open>extract_json (py ''```json\<newline>{"a":1}\<newline>```'') = Inr (py ''{"a":1}'')\<close>
    by code_simp
  with assms show ?thesis
    by (simp add: generate_json_def and_then_def except_JSONDecodeError_def)
qed

theorem generate_json_fenced_witness:
  \<open>generate_text
     (test_provider (Inr (PDict [(py ''response'', PStr (py ''```json\<newline>{"a":1}\<newline>```''))])))
     (py ''q'' @ py ''\<newline>\<newline>Respond with valid JSON only.'') None
     = Inr (PStr (py ''```json\<newline>{"a":1}\<newline>```'')) \<and>
   json_loads_core (py ''{"a":1}'') = Inr (PDict [(py ''a'', PInt 1)]) \<and>
   extract_json (py ''```json\<newline>{"a":1}\<newline>```'') = Inr (py ''{"a":1}'') \<and>
   generate_json json_loads_core
     (test_provider (Inr (PDict [(py ''response'', PStr (py ''```json\<newline>{"a":1}\<newline>```''))])))
     (py ''q'') = Inr (PDict [(py ''a'', PInt 1)])\<close>
proof -
  have g: \<open>generate_text
     (test_provider (Inr (PDict [(py ''response'', PStr (py ''```json\<newline>{"a":1}\<newline>```''))])))
     (py ''q'' @ py ''\<newline>\<newline>Respond with valid JSON only.'') None
     = Inr (PStr (py ''```json\<newline>{"a":1}\<newline>```''))\<close>
    by (simp add: generate_text_def test_provider_def const_client_def and_then_def
        except_Exception_def py_get_dict)
  have l: \<open>json_loads_core (py ''{"a":1}'') = Inr (PDict [(py ''a'', PInt 1)])\<close> by code_simp
  from generate_json_fenced [where loads = json_loads_core and prompt = "py ''q''" and self =
      \<open>test_provider (Inr (PDict [(py ''response'', PStr (py ''```json\<newline>{"a":1}\<newline>```''))]))\<close>]
    g l
  show ?thesis by blast
qed

section \<open>Properties of the model catalog\<close>

lemma get_available_models_raised:
  "client_list (client self) = Inl e \<Longrightarrow>
   get_available_models self = (PList [], [ErrorFetchingModels e])"
  by (simp add: get_available_models_def and_then_def)

lemma get_available_models_not_dict:
  "client_list (client self) = Inr r \<Longrightarrow> \<not> is_dict r \<Longrightarrow>
   get_available_models self = (PList [], [ErrorFetchingModels (no_attribute r (py ''get''))])"
  by (simp add: get_available_models_def and_then_def py_get_not_dict)

lemma get_available_models_dict:
  "client_list (client self) = Inr (PDict kvs) \<Longrightarrow>
   get_available_models self =
     (case map_of kvs (py ''models'') of None \<Rightarrow> PList [] | Some v \<Rightarrow> v, [])"
  by (simp add: get_available_models_def and_then_def py_get_dict)

lemma get_available_models_nonempty:
  assumes "fst (get_available_models self) \<noteq> PList []"
  shows "\<exists>kvs. client_list (client self) = Inr (PDict kvs) \<and>
           map_of kvs (py ''models'') = Some (fst (get_available_models self))"
proof (cases "client_list (client self)")
  case (Inl e)
  with assms show ?thesis by (simp add: get_available_models_raised)
next
  case (Inr r)
  show ?thesis
  proof (cases "is_dict r")
    case False
    with Inr assms show ?thesis by (simp add: get_available_models_not_dict)
  next
    case True
    then obtain kvs where r: "r = PDict kvs" by (cases r) (simp_all add: is_dict_def)
    with Inr assms show ?thesis
      by (auto simp: get_available_models_dict split: option.splits)
  qed
qed

text \<open>
  Claim C5, as amended.  \<open>get_available_models\<close> never raises and has no error result.
  When the listing request succeeds it returns the \<open>models\<close> entry of the payload (the
  empty list when the payload has none), so a backend that reports zero installed models
  yields the empty list.  When the request fails (or the payload is not a mapping) it
  prints the error and returns the empty list as well.  The caller can therefore tell a
  failure from an empty catalog only when the result is not the empty list: such a result
  comes from a successful listing.
\<close>

theorem get_available_models_result:
  "(client_list (client self1) = Inl e1 \<longrightarrow>
      get_available_models self1 = (PList [], [ErrorFetchingModels e1])) \<and>
   (client_list (client self2) = Inr r2 \<and> \<not> is_dict r2 \<longrightarrow>
      get_available_models self2 =
        (PList [], [ErrorFetchingModels (no_attribute r2 (py ''get''))])) \<and>
   (client_list (client self3) = Inr (PDict kvs3) \<longrightarrow>
      get_available_models self3 =
        (case map_of kvs3 (py ''models'') of None \<Rightarrow> PList [] | Some v \<Rightarrow> v, [])) \<and>
   (fst (get_available_models self4) \<noteq> PList [] \<longrightarrow>
      (\<exists>kvs. client_list (client self4) = Inr (PDict kvs) \<and>
             map_of kvs (py ''models'') = Some (fst (get_available_models self4))))"
  using get_available_models_raised get_available_models_not_dict get_available_models_dict
    get_available_models_nonempty by blast

theorem get_available_models_result_witness:
  "client_list (client (test_provider (Inl (Exn BackendError (py ''connection refused''))))) =
     Inl (Exn BackendError (py ''connection refused'')) \<and>
   get_available_models (test_provider (Inl (Exn BackendError (py ''connection refused'')))) =
     (PList [], [ErrorFetchingModels (Exn BackendError (py ''connection refused''))]) \<and>
   client_list (client (test_provider (Inr PNone))) = Inr PNone \<and> \<not> is_dict PNone \<and>
   get_available_models (test_provider (Inr PNone)) =
     (PList [], [ErrorFetchingModels (no_attribute PNone (py ''get''))]) \<and>
   client_list (client (test_provider (Inr (PDict [(py ''models'', PList [])])))) =
     Inr (PDict [(py ''models'', PList [])]) \<and>
   get_available_models (test_provider (Inr (PDict [(py ''models'', PList [])]))) = (PList [], []) \<and>
   fst (get_available_models
     (test_provider (Inr (PDict [(py ''models'', PList [PDict [(py ''model'', PStr (py ''phi''))]])]))))
     \<noteq> PList [] \<and>
   (\<exists>kvs. client_list (client
       (test_provider (Inr (PDict [(py ''models'', PList [PDict [(py ''model'', PStr (py ''phi''))]])]))))
       = Inr (PDict kvs) \<and>
     map_of kvs (py ''models'') = Some (fst (get_available_models
       (test_provider (Inr (PDict [(py ''models'', PList [PDict [(py ''model'', PStr (py ''phi''))]])]))))))"
proof -
  have c: "\<And>r. client_list (client (test_provider r)) = r"
    by (simp add: test_provider_def const_client_def)
  have d: "\<not> is_dict PNone" by (simp add: is_dict_def)
  have m: "(case map_of [(py ''models'', PList [])] (py ''models'') of
             None \<Rightarrow> PList [] | Some v \<Rightarrow> v) = PList []" by simp
  have n: "fst (get_available_models
     (test_provider (Inr (PDict [(py ''models'', PList [PDict [(py ''model'', PStr (py ''phi''))]])]))))
     \<noteq> PList []"
    by (simp add: get_available_models_def and_then_def py_get_dict c)
  note get_available_models_result
    [of "test_provider (Inl (Exn BackendError (py ''connection refused'')))"
      "Exn BackendError (py ''connection refused'')"
      "test_provider (Inr PNone)" PNone
      "test_provider (Inr (PDict [(py ''models'', PList [])]))" "[(py ''models'', PList [])]"
      "test_provider (Inr (PDict [(py ''models'', PList [PDict [(py ''model'', PStr (py ''phi''))]])]))"]
  then show ?thesis unfolding m using c d n by blast
qed

text \<open>
  Claim C5 as stated fails: a refused connection and a backend with zero installed models
  give the caller the same value.
\<close>

theorem get_available_models_counterexample:
  "client_list (client (test_provider (Inl (Exn BackendError (py ''connection refused''))))) =
     Inl (Exn BackendError (py ''connection refused'')) \<and>
   client_list (client (test_provider (Inr (PDict [(py ''models'', PList [])])))) =
     Inr (PDict [(py ''models'', PList [])]) \<and>
   fst (get_available_models (test_provider (Inl (Exn BackendError (py ''connection refused'')))))
     = PList [] \<and>
   fst (get_available_models (test_provider (Inr (PDict [(py ''models'', PList [])]))))
     = PList []"
  by (simp add: get_available_models_def and_then_def py_get_dict test_provider_def
      const_client_def)

lemma map_result_descriptors:
  "map_result (\<lambda>model. py_get model (py ''model'') (PStr [])) (map PDict ds) =
   Inr (map descriptor_name ds)"
  by (induction ds) (simp_all add: and_then_def py_get_dict descriptor_name_def)

text \<open>
  Claim C6.  The provider's constructor resolves the default model: for a catalog
  \<open>ds\<close> of model descriptors returned by the backend, it keeps the preferred name when
  that name occurs among the names of \<open>ds\<close>; otherwise it selects the name of the first
  descriptor of \<open>ds\<close>, in backend order; for the empty catalog it selects \<open>None\<close>.  So for
  every non-empty catalog the selected name is a name of the catalog.
\<close>

theorem init_provider_model:
  assumes "client_list (connect h) = Inr (PDict kvs)"
    and "map_of kvs (py ''models'') = Some (PList (map PDict ds))"
  shows "model_name (fst (init_provider connect h p)) =
           (if ds = [] then PNone
            else if PStr p \<in> set (map descriptor_name ds) then PStr p
            else descriptor_name (hd ds)) \<and>
         (ds = [] \<or> model_name (fst (init_provider connect h p)) \<in> set (map descriptor_name ds))"
proof -
  let ?self = "\<lparr>host = h, model_name = PStr p, temperature = 7 / 10, client = connect h\<rparr>"
  have g: "get_available_models ?self = (PList (map PDict ds), [])"
    using assms by (simp add: get_available_models_dict)
  have sel: "model_name (fst (init_provider connect h p)) =
           (if ds = [] then PNone
            else if PStr p \<in> set (map descriptor_name ds) then PStr p
            else descriptor_name (hd ds))"
  proof (cases ds)
    case Nil
    with g show ?thesis by (simp add: init_provider_def)
  next
    case (Cons d ds')
    have "py_item0 (PList (map PDict ds)) = Inr (PDict d)"
      by (simp add: Cons py_item0_def py_index_def)
    moreover have "py_get (PDict d) (py ''model'') (PStr []) = Inr (descriptor_name d)"
      by (simp add: py_get_dict descriptor_name_def)
    moreover have "truthy (PList (map PDict ds))" by (simp add: Cons)
    moreover have "py_iter (PList (map PDict ds)) = Inr (map PDict ds)" by (simp add: py_iter_def)
    ultimately show ?thesis
      using g map_result_descriptors [of ds] Cons
      by (simp add: init_provider_def and_then_def Let_def del: truthy.simps)
  qed
  show ?thesis
  proof (cases ds)
    case Nil
    with sel show ?thesis by simp
  next
    case (Cons d ds')
    with sel show ?thesis by auto
  qed
qed

theorem init_provider_model_witness:
  "model_name (fst (init_provider
      (\<lambda>h. const_client (Inr (PDict [(py ''models'', PList (map PDict
         [[(py ''model'', PStr (py ''phi''))], [(py ''model'', PStr (py ''mistral''))]]))])))
      (py ''http://127.0.0.1:11434'') (py ''mistral''))) = PStr (py ''mistral'') \<and>
   model_name (fst (init_provider
      (\<lambda>h. const_client (Inr (PDict [(py ''models'', PList (map PDict
         [[(py ''model'', PStr (py ''phi''))], [(py ''model'', PStr (py ''mistral''))]]))])))
      (py ''http://127.0.0.1:11434'') (py ''llama3''))) = PStr (py ''phi'') \<and>
   model_name (fst (init_provider
      (\<lambda>h. const_client (Inr (PDict [(py ''models'', PList (map PDict []))])))
      (py ''http://127.0.0.1:11434'') (py ''mistral''))) = PNone"
proof -
  let ?ds = "[[(py ''model'', PStr (py ''phi''))], [(py ''model'', PStr (py ''mistral''))]]"
  let ?connect = "\<lambda>ds (h::pystr). const_client (Inr (PDict [(py ''models'', PList (map PDict ds))]))"
  have c: "\<And>ds h. client_list (?connect ds h) = Inr (PDict [(py ''models'', PList (map PDict ds))])"
    by (simp add: const_client_def)
  have m: "\<And>ds. map_of [(py ''models'', PList (map PDict ds))] (py ''models'') =
      Some (PList (map PDict ds))" by simp
  have n: "map descriptor_name ?ds = [PStr (py ''phi''), PStr (py ''mistral'')]"
    by (simp add: descriptor_name_def)
  have q: "PStr (py ''mistral'') \<in> set [PStr (py ''phi''), PStr (py ''mistral'')]"
    "PStr (py ''llama3'') \<notin> set [PStr (py ''phi''), PStr (py ''mistral'')]"
    by (simp_all add: py_def)
  have hd: "descriptor_name (hd ?ds) = PStr (py ''phi'')" by (simp add: descriptor_name_def)
  from init_provider_model [of "?connect ?ds" "py ''http://127.0.0.1:11434''" _ ?ds "py ''mistral''",
      OF c m]
  have 1: "model_name (fst (init_provider (?connect ?ds) (py ''http://127.0.0.1:11434'')
      (py ''mistral''))) = PStr (py ''mistral'')"
    unfolding n using q by simp
  from init_provider_model [of "?connect ?ds" "py ''http://127.0.0.1:11434''" _ ?ds "py ''llama3''",
      OF c m]
  have 2: "model_name (fst (init_provider (?connect ?ds) (py ''http://127.0.0.1:11434'')
      (py ''llama3''))) = PStr (py ''phi'')"
    unfolding n hd using q by simp
  from init_provider_model [of "?connect []" "py ''http://127.0.0.1:11434''" _ "[]" "py ''mistral''",
      OF c m]
  have 3: "model_name (fst (init_provider (?connect []) (py ''http://127.0.0.1:11434'')
      (py ''mistral''))) = PNone"
    by simp
  from 1 2 3 show ?thesis by blast
qed

text \<open>
  \<open>set_model\<close> accepts a name only when an entry of the catalog carries it under the key
  \<open>name\<close>: against a catalog whose entries have no such key it fails for every name.
\<close>

lemma any_name_without_key:
  "list_all (\<lambda>d. map_of d (py ''name'') = None) ds \<Longrightarrow> any_name n (map PDict ds) = Inr False"
  by (induction ds) (simp_all add: and_then_def py_get_dict)

lemma set_model_needs_name_key:
  assumes "client_list (client self) = Inr (PDict kvs)"
    and "map_of kvs (py ''models'') = Some (PList (map PDict ds))"
    and "list_all (\<lambda>d. map_of d (py ''name'') = None) ds"
  shows "set_model self n = (False, self, [ModelNotFound n])"
proof -
  have "get_available_models self = (PList (map PDict ds), [])"
    using assms(1,2) by (simp add: get_available_models_dict)
  with any_name_without_key [OF assms(3), of n] show ?thesis
    by (simp add: set_model_def py_iter_def and_then_def)
qed

text \<open>
  Claim C3.  \<open>set_model\<close> looks the requested name up under the key \<open>name\<close>, while the
  catalog entries carry it under \<open>model\<close>, the key the constructor and the settings
  panel read.  For the catalog \<open>[{model: mistral, details: {}}, {model: phi}]\<close> the
  constructor finds \<open>phi\<close> in the catalog, and \<open>set_model\<close> on \<open>phi\<close> returns \<open>False\<close>,
  prints that the model was not found and leaves \<open>mistral\<close> configured.
\<close>

theorem set_model_failing_input:
  "model_name (fst (init_provider
      (\<lambda>h. const_client (Inr (PDict [(py ''models'', PList
         [PDict [(py ''model'', PStr (py ''mistral'')), (py ''details'', PDict [])],
          PDict [(py ''model'', PStr (py ''phi''))]])])))
      (py ''http://127.0.0.1:11434'') (py ''phi''))) = PStr (py ''phi'') \<and>
   model_name (test_provider (Inr (PDict [(py ''models'', PList
         [PDict [(py ''model'', PStr (py ''mistral'')), (py ''details'', PDict [])],
          PDict [(py ''model'', PStr (py ''phi''))]])]))) = PStr (py ''mistral'') \<and>
   fst (set_model
      (test_provider (Inr (PDict [(py ''models'', PList
         [PDict [(py ''model'', PStr (py ''mistral'')), (py ''details'', PDict [])],
          PDict [(py ''model'', PStr (py ''phi''))]])])))
      (py ''phi'')) = False \<and>
   model_name (fst (snd (set_model
      (test_provider (Inr (PDict [(py ''models'', PList
         [PDict [(py ''model'', PStr (py ''mistral'')), (py ''details'', PDict [])],
          PDict [(py ''model'', PStr (py ''phi''))]])])))
      (py ''phi'')))) = PStr (py ''mistral'') \<and>
   snd (snd (set_model
      (test_provider (Inr (PDict [(py ''models'', PList
         [PDict [(py ''model'', PStr (py ''mistral'')), (py ''details'', PDict [])],
          PDict [(py ''model'', PStr (py ''phi''))]])])))
      (py ''phi''))) = [ModelNotFound (py ''phi'')]"
  by (simp add: init_provider_def set_model_def get_available_models_def and_then_def py_get_dict
      py_iter_def py_item0_def py_index_def test_provider_def const_client_def py_def Let_def)

section \<open>Properties of the chat application\<close>

lemma set_model_temperature: "temperature (fst (snd (set_model self n))) = temperature self"
  by (simp add: set_model_def Let_def split: sum.splits)

lemma with_endpoint_temperature:
  "temperature (with_endpoint connect p) = temperature (llm_provider p)"
  by (simp add: with_endpoint_def Let_def)

lemma handle_save_stores:
  assumes "\<not> save_aborted connect p"
  shows "temperature (llm_provider (handle_save connect p)) = temperature_slider_value p"
proof (cases "model_selected p")
  case False
  then show ?thesis by (simp add: handle_save_def Let_def)
next
  case True
  then obtain n where n: "model_combo_value p = Some n"
    by (auto simp: model_selected_def split: option.splits)
  obtain success prov2 out where s: "set_model (with_endpoint connect p) n = (success, prov2, out)"
    by (cases "set_model (with_endpoint connect p) n") auto
  with assms True n have "\<not> (\<not> success \<and> has_page p)" by (simp add: save_aborted_def)
  with True n s show ?thesis by (auto simp: handle_save_def Let_def)
qed

lemma handle_save_aborted:
  assumes "save_aborted connect p"
  shows "temperature (llm_provider (handle_save connect p)) = temperature (llm_provider p)"
proof -
  from assms have sel: "model_selected p"
    by (simp add: save_aborted_def split: option.splits)
  then obtain n where n: "model_combo_value p = Some n"
    by (auto simp: model_selected_def split: option.splits)
  obtain success prov2 out where s: "set_model (with_endpoint connect p) n = (success, prov2, out)"
    by (cases "set_model (with_endpoint connect p) n") auto
  with assms n have f: "\<not> success \<and> has_page p" by (simp add: save_aborted_def)
  have "temperature prov2 = temperature (llm_provider p)"
    using set_model_temperature [of "with_endpoint connect p" n] s
    by (simp add: with_endpoint_temperature)
  with sel n s f show ?thesis by (simp add: handle_save_def Let_def)
qed

text \<open>
  Claim C4, as amended.  Saving the settings does not clamp: it stores the value of the
  temperature slider unchanged.  The stored temperature therefore equals
  \<open>min 2 (max 0 value)\<close> for every value in \<open>[0, 2]\<close>, the range the slider is configured
  with.  Saving has one failure mode: when a model is selected, \<open>set_model\<close> fails and a
  page is attached, the handler returns early and the temperature is left as it was.
\<close>

theorem handle_save_temperature:
  "(\<not> save_aborted connect p1 \<longrightarrow>
      temperature (llm_provider (handle_save connect p1)) = temperature_slider_value p1) \<and>
   (\<not> save_aborted connect p2 \<and> 0 \<le> temperature_slider_value p2 \<and>
    temperature_slider_value p2 \<le> 2 \<longrightarrow>
      temperature (llm_provider (handle_save connect p2)) =
        min 2 (max 0 (temperature_slider_value p2))) \<and>
   (save_aborted connect p3 \<longrightarrow>
      temperature (llm_provider (handle_save connect p3)) = temperature (llm_provider p3))"
  by (simp add: handle_save_stores handle_save_aborted)

theorem handle_save_temperature_witness:
  "\<not> save_aborted (\<lambda>h. const_client (Inr (PDict [])))
      (test_panel (Some (py ''phi'')) (3 / 2)
         (Inr (PDict [(py ''models'', PList [PDict [(py ''name'', PStr (py ''phi''))]])]))) \<and>
   temperature (llm_provider (handle_save (\<lambda>h. const_client (Inr (PDict [])))
      (test_panel (Some (py ''phi'')) (3 / 2)
         (Inr (PDict [(py ''models'', PList [PDict [(py ''name'', PStr (py ''phi''))]])]))))) = 3 / 2 \<and>
   \<not> save_aborted (\<lambda>h. const_client (Inr (PDict []))) (test_panel None (3 / 10) (Inr (PDict []))) \<and>
   (0::real) \<le> 3 / 10 \<and> (3 / 10 :: real) \<le> 2 \<and>
   temperature (llm_provider (handle_save (\<lambda>h. const_client (Inr (PDict [])))
      (test_panel None (3 / 10) (Inr (PDict []))))) = min 2 (max 0 (3 / 10)) \<and>
   save_aborted (\<lambda>h. const_client (Inr (PDict [])))
      (test_panel (Some (py ''ghost'')) (3 / 2)
         (Inr (PDict [(py ''models'', PList [PDict [(py ''name'', PStr (py ''phi''))]])]))) \<and>
   temperature (llm_provider (handle_save (\<lambda>h. const_client (Inr (PDict [])))
      (test_panel (Some (py ''ghost'')) (3 / 2)
         (Inr (PDict [(py ''models'', PList [PDict [(py ''name'', PStr (py ''phi''))]])]))))) = 7 / 10"
proof -
  let ?c = "\<lambda>h::pystr. const_client (Inr (PDict []))"
  let ?cat = "Inr (PDict [(py ''models'', PList [PDict [(py ''name'', PStr (py ''phi''))]])])"
  have a1: "\<not> save_aborted ?c (test_panel (Some (py ''phi'')) (3 / 2) ?cat)"
    by (simp add: save_aborted_def model_selected_def test_panel_def with_endpoint_def strip_def
        is_space_def test_provider_def set_model_def get_available_models_def and_then_def py_get_dict
        py_iter_def const_client_def py_def Let_def)
  have a2: "\<not> save_aborted ?c (test_panel None (3 / 10) (Inr (PDict [])))"
    by (simp add: save_aborted_def model_selected_def test_panel_def)
  have a3: "save_aborted ?c (test_panel (Some (py ''ghost'')) (3 / 2) ?cat)"
    by (simp add: save_aborted_def model_selected_def test_panel_def with_endpoint_def strip_def
        is_space_def test_provider_def set_model_def get_available_models_def and_then_def py_get_dict
        py_iter_def const_client_def py_def Let_def)
  have v: "temperature_slider_value (test_panel (Some (py ''phi'')) (3 / 2) ?cat) = 3 / 2"
    "temperature_slider_value (test_panel None (3 / 10) (Inr (PDict []))) = 3 / 10"
    "temperature (llm_provider (test_panel (Some (py ''ghost'')) (3 / 2) ?cat)) = 7 / 10"
    by (simp_all add: test_panel_def test_provider_def)
  have r: "(0::real) \<le> 3 / 10" "(3 / 10 :: real) \<le> 2" by simp_all
  note handle_save_temperature [of ?c "test_panel (Some (py ''phi'')) (3 / 2) ?cat"
      "test_panel None (3 / 10) (Inr (PDict []))" "test_panel (Some (py ''ghost'')) (3 / 2) ?cat"]
  then show ?thesis unfolding v using a1 a2 a3 r by blast
qed

text \<open>
  Claim C4 as stated fails: a slider value of 5 is stored as 5, not as 2, and a value of
  -1 as -1, not as 0.
\<close>

theorem handle_save_counterexample:
  "temperature (llm_provider (handle_save (\<lambda>h. const_client (Inr (PDict [])))
      (test_panel None 5 (Inr (PDict []))))) = 5 \<and>
   (5::real) \<noteq> min 2 (max 0 5) \<and>
   temperature (llm_provider (handle_save (\<lambda>h. const_client (Inr (PDict [])))
      (test_panel None (- 1) (Inr (PDict []))))) = - 1 \<and>
   (- 1::real) \<noteq> min 2 (max 0 (- 1))"
  by (simp add: handle_save_def model_selected_def test_panel_def Let_def)

lemma strip_blank: "list_all is_space s \<Longrightarrow> strip s = []"
  by (auto simp: strip_def list_all_iff dest: set_dropWhileD)

text \<open>
  Claim C9.  Submitting an empty or whitespace-only text is a no-op: \<open>send_message\<close>
  returns the state it was given, so no message is appended to the transcript and no
  worker thread (no backend call) is started; a session that was idle remains idle.
\<close>

theorem send_message_blank:
  assumes "list_all is_space (chat_input_value self)"
  shows "send_message self = self \<and>
         chat_display (send_message self) = chat_display self \<and>
         threads_started (send_message self) = threads_started self"
  using assms by (simp add: send_message_def strip_blank)

theorem send_message_blank_witness:
  "list_all is_space (chat_input_value (test_app [])) \<and>
   send_message (test_app []) = test_app [] \<and>
   list_all is_space (chat_input_value (test_app (py ''   ''))) \<and>
   send_message (test_app (py ''   '')) = test_app (py ''   '') \<and>
   chat_display (send_message (test_app (py ''   ''))) = chat_display (test_app (py ''   '')) \<and>
   threads_started (send_message (test_app (py ''   ''))) = threads_started (test_app (py ''   ''))"
proof -
  have b: "list_all is_space (chat_input_value (test_app []))"
    "list_all is_space (chat_input_value (test_app (py ''   '')))"
    by (simp_all add: test_app_def is_space_def py_def)
  from send_message_blank [OF b(1)] send_message_blank [OF b(2)] b show ?thesis by blast
qed

text \<open>
  \<open>send_message\<close> reads no busy flag (the source has none): in every state a text that
  is not blank is appended as a user message and a worker thread is started for it.  What
  the worker threads do then (each runs its \<open>process_message\<close> coroutine on the one
  event loop of the application) is outside this sequential model.
\<close>

lemma send_message_starts_worker:
  assumes "strip (chat_input_value self) \<noteq> []"
  shows "threads_started (send_message self) =
           threads_started self @ [strip (chat_input_value self)] \<and>
         chat_display (send_message self) =
           chat_display self @ [ChatMessage (py ''You'') (strip (chat_input_value self))] \<and>
         chat_input_value (send_message self) = []"
  using assms by (simp add: send_message_def Let_def)

lemma send_message_twice:
  "threads_started
     (send_message ((send_message (idle_app (py ''hello'')))\<lparr>chat_input_value := py ''again''\<rparr>))
     = [py ''hello'', py ''again''] \<and>
   chat_display
     (send_message ((send_message (idle_app (py ''hello'')))\<lparr>chat_input_value := py ''again''\<rparr>))
     = [ChatMessage (py ''You'') (py ''hello''), ChatMessage (py ''You'') (py ''again'')]"
  by (simp add: send_message_def idle_app_def strip_def is_space_def py_def Let_def)

end
